theory Spec2Isabelle
  imports Main
begin

section \<open>Data model (src/types/index.ts)\<close>

text \<open>
  The \<open>User\<close>, \<open>LoginResponse\<close> and \<open>RegisterResponse\<close> interfaces. The numeric
  \<open>id\<close> is never computed with by the client, so it is an \<open>int\<close>. What a rejected
  axios promise carries is read by the callers only through
  \<open>response?.data?.detail\<close> and \<open>message\<close>.
\<close>

record User =
  User_id :: int
  User_username :: string
  User_email :: string

record LoginResponse =
  access_token :: string
  token_type :: string

record RegisterResponse =
  RegisterResponse_id :: int
  RegisterResponse_username :: string
  RegisterResponse_email :: string

record AxiosError =
  detail :: "string option"
  message :: string

section \<open>The browser and the backend as seen by the client\<close>

text \<open>
  The three endpoints the client talks to. Each operation is handed the backend as it
  answers during that operation; different operations may be handed different backends
  (a token that was accepted earlier may be rejected later).
\<close>

record network =
  post_login :: "string \<Rightarrow> string \<Rightarrow> AxiosError + LoginResponse"
  post_register :: "string \<Rightarrow> string \<Rightarrow> string \<Rightarrow> AxiosError + RegisterResponse"
  get_users_me :: "string \<Rightarrow> AxiosError + User"

text \<open>Every call that leaves the component, in the order it is made.\<close>

datatype effect =
    HttpGet string string
  | HttpPost string "string list"
  | StorageGet string
  | StorageSet string string
  | StorageRemove string

text \<open>
  The three \<open>useState\<close> cells of \<open>AuthProvider\<close> (the value handed to consumers through
  the context), extended with the browser's \<open>localStorage\<close> and the trace of outside
  calls.
\<close>

record session =
  user :: "User option"
  token :: "string option"
  isLoading :: bool

record world = session +
  localStorage :: "string \<rightharpoonup> string"
  trace :: "effect list"

text \<open>\<open>useState(null)\<close>, \<open>useState(null)\<close>, \<open>useState(true)\<close>.\<close>

definition initial_world :: "(string \<rightharpoonup> string) \<Rightarrow> world" where
  "initial_world store =
     \<lparr>user = None, token = None, isLoading = True, localStorage = store, trace = []\<rparr>"

section \<open>Asynchronous code as a state-and-exception computation\<close>

type_synonym ('s, 'a) prog = "'s \<Rightarrow> (AxiosError + 'a) \<times> 's"

definition ret :: "'a \<Rightarrow> ('s, 'a) prog" where
  "ret v s = (Inr v, s)"

definition throw :: "AxiosError \<Rightarrow> ('s, 'a) prog" where
  "throw e s = (Inl e, s)"

definition bind_prog :: "('s, 'a) prog \<Rightarrow> ('a \<Rightarrow> ('s, 'b) prog) \<Rightarrow> ('s, 'b) prog" where
  "bind_prog m k s = (case m s of (Inl e, s') \<Rightarrow> (Inl e, s') | (Inr v, s') \<Rightarrow> k v s')"

definition try_catch :: "('s, 'a) prog \<Rightarrow> (AxiosError \<Rightarrow> ('s, 'a) prog) \<Rightarrow> ('s, 'a) prog" where
  "try_catch body handler s =
     (case body s of (Inl e, s') \<Rightarrow> handler e s' | (Inr v, s') \<Rightarrow> (Inr v, s'))"

definition try_catch_finally ::
  "('s, 'a) prog \<Rightarrow> (AxiosError \<Rightarrow> ('s, 'a) prog) \<Rightarrow> ('s, unit) prog \<Rightarrow> ('s, 'a) prog" where
  "try_catch_finally body handler fin s =
     (case try_catch body handler s of
        (r, s') \<Rightarrow> (case fin s' of (Inl e, s'') \<Rightarrow> (Inl e, s'') | (Inr _, s'') \<Rightarrow> (r, s'')))"

text \<open>JavaScript truthiness of a \<open>string | null\<close>: \<open>null\<close> and \<open>''\<close> are falsy.\<close>

fun truthy :: "string option \<Rightarrow> bool" where
  "truthy None = False"
| "truthy (Some s) = (s \<noteq> [])"

subsection \<open>localStorage, axios and the state setters\<close>

definition localStorage_getItem :: "string \<Rightarrow> (world, string option) prog" where
  "localStorage_getItem k w = (Inr (localStorage w k), w\<lparr>trace := trace w @ [StorageGet k]\<rparr>)"

definition localStorage_setItem :: "string \<Rightarrow> string \<Rightarrow> (world, unit) prog" where
  "localStorage_setItem k v w =
     (Inr (), w\<lparr>localStorage := (localStorage w)(k \<mapsto> v), trace := trace w @ [StorageSet k v]\<rparr>)"

definition localStorage_removeItem :: "string \<Rightarrow> (world, unit) prog" where
  "localStorage_removeItem k w =
     (Inr (), w\<lparr>localStorage := (localStorage w)(k := None), trace := trace w @ [StorageRemove k]\<rparr>)"

definition axios_get_users_me :: "network \<Rightarrow> string \<Rightarrow> (world, User) prog" where
  "axios_get_users_me net authToken w =
     (get_users_me net authToken,
      w\<lparr>trace := trace w @ [HttpGet ''http://localhost:8000/users/me'' (''Bearer '' @ authToken)]\<rparr>)"

definition axios_post_login :: "network \<Rightarrow> string \<Rightarrow> string \<Rightarrow> (world, LoginResponse) prog" where
  "axios_post_login net username password w =
     (post_login net username password,
      w\<lparr>trace := trace w @ [HttpPost ''http://localhost:8000/login'' [username, password]]\<rparr>)"

definition axios_post_register ::
  "network \<Rightarrow> string \<Rightarrow> string \<Rightarrow> string \<Rightarrow> (world, RegisterResponse) prog" where
  "axios_post_register net username email password w =
     (post_register net username email password,
      w\<lparr>trace := trace w @ [HttpPost ''http://localhost:8000/register'' [username, email, password]]\<rparr>)"

definition setUser :: "User option \<Rightarrow> (world, unit) prog" where
  "setUser u w = (Inr (), w\<lparr>user := u\<rparr>)"

definition setToken :: "string option \<Rightarrow> (world, unit) prog" where
  "setToken t w = (Inr (), w\<lparr>token := t\<rparr>)"

definition setIsLoading :: "bool \<Rightarrow> (world, unit) prog" where
  "setIsLoading b w = (Inr (), w\<lparr>isLoading := b\<rparr>)"

section \<open>AuthProvider (src/context/AuthContext.tsx)\<close>

definition fetchUserData :: "network \<Rightarrow> string \<Rightarrow> (world, unit) prog" where
  "fetchUserData net authToken =
     try_catch_finally
       (bind_prog (axios_get_users_me net authToken) (\<lambda>response. setUser (Some response)))
       (\<lambda>error. bind_prog (localStorage_removeItem ''access_token'') (\<lambda>_. setToken None))
       (setIsLoading False)"

text \<open>
  The mount effect of \<open>AuthProvider\<close>: the session check at application start. The
  effect starts \<open>fetchUserData\<close> without awaiting it; the model runs it to the end, which
  gives the world once the profile request has settled. Operations are run one at a
  time, each to completion.
\<close>

definition AuthProvider_init :: "network \<Rightarrow> (world, unit) prog" where
  "AuthProvider_init net =
     bind_prog (localStorage_getItem ''access_token'') (\<lambda>storedToken.
       if truthy storedToken
       then bind_prog (setToken storedToken) (\<lambda>_. fetchUserData net (the storedToken))
       else setIsLoading False)"

definition login :: "network \<Rightarrow> string \<Rightarrow> string \<Rightarrow> (world, unit) prog" where
  "login net username password =
     try_catch
       (bind_prog (axios_post_login net username password) (\<lambda>response.
        bind_prog (localStorage_setItem ''access_token'' (access_token response)) (\<lambda>_.
        bind_prog (setToken (Some (access_token response))) (\<lambda>_.
        fetchUserData net (access_token response)))))
       (\<lambda>error. throw error)"

definition register :: "network \<Rightarrow> string \<Rightarrow> string \<Rightarrow> string \<Rightarrow> (world, unit) prog" where
  "register net username email password =
     try_catch
       (bind_prog (axios_post_register net username email password) (\<lambda>response.
        login net username password))
       (\<lambda>error. throw error)"

definition logout :: "(world, unit) prog" where
  "logout =
     bind_prog (localStorage_removeItem ''access_token'') (\<lambda>_.
     bind_prog (setUser None) (\<lambda>_.
     setToken None))"

text \<open>A freshly mounted provider over a given browser storage.\<close>

definition mount :: "network \<Rightarrow> (string \<rightharpoonup> string) \<Rightarrow> (AxiosError + unit) \<times> world" where
  "mount net store = AuthProvider_init net (initial_world store)"

section \<open>Route guard (src/components/ProtectedRoute.tsx)\<close>

datatype rendered = LoadingPlaceholder | Navigate string | Children

text \<open>
  The guard sees the context value only; \<open>!user\<close> holds for \<open>null\<close> alone (a user is
  an object), \<open>!token\<close> for \<open>null\<close> and for the empty string.
\<close>

definition ProtectedRoute :: "'a session_scheme \<Rightarrow> rendered" where
  "ProtectedRoute ctx =
     (if isLoading ctx then LoadingPlaceholder
      else if user ctx = None \<or> \<not> truthy (token ctx) then Navigate ''/login''
      else Children)"

section \<open>Pages (src/pages/Login.tsx, src/pages/Register.tsx)\<close>

text \<open>\<open>a || b\<close> on an optional string.\<close>

fun or_else :: "string option \<Rightarrow> string \<Rightarrow> string" where
  "or_else None b = b"
| "or_else (Some a) b = (if a = [] then b else a)"

text \<open>
  A page handler runs on the page's own \<open>useState\<close> cells together with the provider's
  world; \<open>Login_location\<close> and \<open>Register_location\<close> hold the target of the last
  \<open>navigate\<close> call.
\<close>

definition in_world :: "(world, 'a) prog \<Rightarrow> ('p \<times> world, 'a) prog" where
  "in_world m s = (case m (snd s) of (r, w') \<Rightarrow> (r, (fst s, w')))"

definition in_page :: "('p \<Rightarrow> 'p) \<Rightarrow> ('p \<times> world, unit) prog" where
  "in_page f s = (Inr (), (f (fst s), snd s))"

record Login_page =
  Login_username :: string
  Login_password :: string
  Login_error :: string
  Login_isLoading :: bool
  Login_location :: "string option"

definition Login_handleSubmit :: "network \<Rightarrow> (Login_page \<times> world, unit) prog" where
  "Login_handleSubmit net s =
     (let username = Login_username (fst s); password = Login_password (fst s) in
      bind_prog (in_page (\<lambda>p. p\<lparr>Login_error := []\<rparr>)) (\<lambda>_.
      bind_prog (in_page (\<lambda>p. p\<lparr>Login_isLoading := True\<rparr>)) (\<lambda>_.
      try_catch_finally
        (bind_prog (in_world (login net username password)) (\<lambda>_.
         in_page (\<lambda>p. p\<lparr>Login_location := Some ''/dashboard''\<rparr>)))
        (\<lambda>err. in_page (\<lambda>p. p\<lparr>Login_error :=
            or_else (detail err) ''Login failed. Please try again.''\<rparr>))
        (in_page (\<lambda>p. p\<lparr>Login_isLoading := False\<rparr>))))) s"

record Register_page =
  Register_username :: string
  Register_email :: string
  Register_password :: string
  Register_confirmPassword :: string
  Register_error :: string
  Register_isLoading :: bool
  Register_location :: "string option"

definition Register_handleSubmit :: "network \<Rightarrow> (Register_page \<times> world, unit) prog" where
  "Register_handleSubmit net s =
     (let username = Register_username (fst s); email = Register_email (fst s);
          password = Register_password (fst s);
          confirmPassword = Register_confirmPassword (fst s) in
      bind_prog (in_page (\<lambda>p. p\<lparr>Register_error := []\<rparr>)) (\<lambda>_.
      if password \<noteq> confirmPassword
      then in_page (\<lambda>p. p\<lparr>Register_error := ''Passwords do not match''\<rparr>)
      else if length password < 6
      then in_page (\<lambda>p. p\<lparr>Register_error := ''Password must be at least 6 characters''\<rparr>)
      else
        bind_prog (in_page (\<lambda>p. p\<lparr>Register_isLoading := True\<rparr>)) (\<lambda>_.
        try_catch_finally
          (bind_prog (in_world (register net username email password)) (\<lambda>_.
           in_page (\<lambda>p. p\<lparr>Register_location := Some ''/dashboard''\<rparr>)))
          (\<lambda>err. in_page (\<lambda>p. p\<lparr>Register_error :=
              or_else (detail err) ''Registration failed. Please try again.''\<rparr>))
          (in_page (\<lambda>p. p\<lparr>Register_isLoading := False\<rparr>))))) s"

section \<open>Observing storage traffic\<close>

text \<open>The storage key an outside call works on, if it is a storage call.\<close>

fun storage_key :: "effect \<Rightarrow> string option" where
  "storage_key (StorageGet k) = Some k"
| "storage_key (StorageSet k v) = Some k"
| "storage_key (StorageRemove k) = Some k"
| "storage_key (HttpGet url auth) = None"
| "storage_key (HttpPost url body) = None"

fun is_http :: "effect \<Rightarrow> bool" where
  "is_http (HttpGet url auth) = True"
| "is_http (HttpPost url body) = True"
| "is_http (StorageGet k) = False"
| "is_http (StorageSet k v) = False"
| "is_http (StorageRemove k) = False"

text \<open>The calls made between two worlds of one run.\<close>

definition new_effects :: "world \<Rightarrow> world \<Rightarrow> effect list" where
  "new_effects w w' = drop (length (trace w)) (trace w')"

text \<open>
  A step from \<open>w\<close> to \<open>w'\<close> stays within the storage slot \<open>k\<close>: the trace only grows, every
  storage call it gained is on \<open>k\<close>, and every other slot holds what it held.
\<close>

definition confined_to :: "string \<Rightarrow> world \<Rightarrow> world \<Rightarrow> bool" where
  "confined_to k w w' \<longleftrightarrow>
     take (length (trace w)) (trace w') = trace w \<and>
     list_all (\<lambda>e. storage_key e = None \<or> storage_key e = Some k) (new_effects w w') \<and>
     (\<forall>k'. k' \<noteq> k \<longrightarrow> localStorage w' k' = localStorage w k')"

text \<open>What a consumer or a later page load can see of a world: everything but the trace.\<close>

definition observable ::
  "world \<Rightarrow> User option \<times> string option \<times> bool \<times> (string \<rightharpoonup> string)" where
  "observable w = (user w, token w, isLoading w, localStorage w)"

section \<open>Sample users, errors and backends\<close>

definition alice :: User where
  "alice = \<lparr>User_id = 1, User_username = ''alice'', User_email = ''alice@example.com''\<rparr>"

definition unauthorized :: AxiosError where
  "unauthorized =
     \<lparr>detail = Some ''Could not validate credentials'',
      message = ''Request failed with status code 401''\<rparr>"

text \<open>A backend that accepts every request and resolves every token to \<open>alice\<close>.\<close>

definition backend_up :: network where
  "backend_up =
     \<lparr>post_login = (\<lambda>u p. Inr \<lparr>access_token = ''jwt-fresh'', token_type = ''bearer''\<rparr>),
      post_register = (\<lambda>u e p. Inr \<lparr>RegisterResponse_id = 1, RegisterResponse_username = u,
                                   RegisterResponse_email = e\<rparr>),
      get_users_me = (\<lambda>t. Inr alice)\<rparr>"

text \<open>A backend that rejects every request.\<close>

definition backend_rejecting :: network where
  "backend_rejecting =
     \<lparr>post_login = (\<lambda>u p. Inl unauthorized),
      post_register = (\<lambda>u e p. Inl unauthorized),
      get_users_me = (\<lambda>t. Inl unauthorized)\<rparr>"

text \<open>A backend that issues tokens and registers users, but whose profile endpoint fails.\<close>

definition backend_profile_down :: network where
  "backend_profile_down =
     \<lparr>post_login = (\<lambda>u p. Inr \<lparr>access_token = ''jwt-fresh'', token_type = ''bearer''\<rparr>),
      post_register = (\<lambda>u e p. Inr \<lparr>RegisterResponse_id = 1, RegisterResponse_username = u,
                                   RegisterResponse_email = e\<rparr>),
      get_users_me = (\<lambda>t. Inl unauthorized)\<rparr>"

text \<open>A backend that registers users but refuses to issue tokens.\<close>

definition backend_login_down :: network where
  "backend_login_down =
     \<lparr>post_login = (\<lambda>u p. Inl unauthorized),
      post_register = (\<lambda>u e p. Inr \<lparr>RegisterResponse_id = 1, RegisterResponse_username = u,
                                   RegisterResponse_email = e\<rparr>),
      get_users_me = (\<lambda>t. Inr alice)\<rparr>"

text \<open>A context value with a user and the empty string as token.\<close>

definition empty_token_session :: session where
  "empty_token_session = \<lparr>user = Some alice, token = Some [], isLoading = False\<rparr>"

definition logged_out :: world where
  "logged_out =
     \<lparr>user = None, token = None, isLoading = False, localStorage = Map.empty, trace = []\<rparr>"

text \<open>A logged-out world whose storage holds an unrelated slot.\<close>

definition themed_world :: world where
  "themed_world = logged_out\<lparr>localStorage := [''theme'' \<mapsto> ''dark'']\<rparr>"

text \<open>The world after mounting over a stored token that the backend accepts.\<close>

definition alice_session :: world where
  "alice_session = snd (mount backend_up [''access_token'' \<mapsto> ''jwt-old''])"

definition login_form :: Login_page where
  "login_form =
     \<lparr>Login_username = ''alice'', Login_password = ''secret1'', Login_error = [],
      Login_isLoading = False, Login_location = None\<rparr>"

definition register_form :: "string \<Rightarrow> string \<Rightarrow> Register_page" where
  "register_form pw confirm =
     \<lparr>Register_username = ''alice'', Register_email = ''alice@example.com'',
      Register_password = pw, Register_confirmPassword = confirm, Register_error = [],
      Register_isLoading = False, Register_location = None\<rparr>"

section \<open>Basic facts about the operations\<close>

lemmas prog_defs =
  ret_def throw_def bind_prog_def try_catch_def try_catch_finally_def
  localStorage_getItem_def localStorage_setItem_def localStorage_removeItem_def
  axios_get_users_me_def axios_post_login_def axios_post_register_def
  setUser_def setToken_def setIsLoading_def in_world_def in_page_def

lemma logout_eq:
  "logout w =
     (Inr (), w\<lparr>user := None, token := None,
                localStorage := (localStorage w)(''access_token'' := None),
                trace := trace w @ [StorageRemove ''access_token'']\<rparr>)"
  by (simp add: logout_def prog_defs)

lemma fetchUserData_accepted:
  assumes "get_users_me net t = Inr u"
  shows "fetchUserData net t w =
     (Inr (), w\<lparr>user := Some u, isLoading := False,
                trace := trace w @ [HttpGet ''http://localhost:8000/users/me'' (''Bearer '' @ t)]\<rparr>)"
  using assms by (simp add: fetchUserData_def prog_defs)

lemma fetchUserData_rejected:
  assumes "get_users_me net t = Inl e"
  shows "fetchUserData net t w =
     (Inr (), w\<lparr>token := None, isLoading := False,
                localStorage := (localStorage w)(''access_token'' := None),
                trace := trace w @ [HttpGet ''http://localhost:8000/users/me'' (''Bearer '' @ t),
                                    StorageRemove ''access_token'']\<rparr>)"
  using assms by (simp add: fetchUserData_def prog_defs)

lemma login_rejected:
  assumes "post_login net u p = Inl e"
  shows "login net u p w =
     (Inl e, w\<lparr>trace := trace w @ [HttpPost ''http://localhost:8000/login'' [u, p]]\<rparr>)"
  using assms by (simp add: login_def prog_defs)

lemma login_issued:
  assumes "post_login net u p = Inr r"
  shows "login net u p w =
     fetchUserData net (access_token r)
       (w\<lparr>token := Some (access_token r),
          localStorage := (localStorage w)(''access_token'' \<mapsto> access_token r),
          trace := trace w @ [HttpPost ''http://localhost:8000/login'' [u, p],
                              StorageSet ''access_token'' (access_token r)]\<rparr>)"
proof (cases "get_users_me net (access_token r)")
  case (Inl e)
  then show ?thesis
    using assms
    by (simp add: login_def bind_prog_def try_catch_def throw_def axios_post_login_def
        localStorage_setItem_def setToken_def fetchUserData_rejected)
next
  case (Inr v)
  then show ?thesis
    using assms
    by (simp add: login_def bind_prog_def try_catch_def throw_def axios_post_login_def
        localStorage_setItem_def setToken_def fetchUserData_accepted)
qed

lemma try_catch_rethrow: "try_catch body (\<lambda>error. throw error) = body"
  by (rule ext) (simp add: try_catch_def throw_def split: prod.splits sum.splits)

lemma register_rejected:
  assumes "post_register net u m p = Inl e"
  shows "register net u m p w =
     (Inl e, w\<lparr>trace := trace w @ [HttpPost ''http://localhost:8000/register'' [u, m, p]]\<rparr>)"
  using assms by (simp add: register_def prog_defs)

lemma register_accepted:
  assumes "post_register net u m p = Inr r"
  shows "register net u m p w =
     login net u p (w\<lparr>trace := trace w @ [HttpPost ''http://localhost:8000/register'' [u, m, p]]\<rparr>)"
  using assms by (simp add: register_def try_catch_rethrow bind_prog_def axios_post_register_def)

lemma init_no_token:
  assumes "\<not> truthy (localStorage w ''access_token'')"
  shows "AuthProvider_init net w =
     (Inr (), w\<lparr>isLoading := False, trace := trace w @ [StorageGet ''access_token'']\<rparr>)"
  using assms by (simp add: AuthProvider_init_def prog_defs)

lemma init_token:
  assumes "localStorage w ''access_token'' = Some t" and "t \<noteq> []"
  shows "AuthProvider_init net w =
     fetchUserData net t (w\<lparr>trace := trace w @ [StorageGet ''access_token''], token := Some t\<rparr>)"
  using assms by (simp add: AuthProvider_init_def bind_prog_def localStorage_getItem_def setToken_def)

section \<open>Auxiliary facts\<close>

lemma alice_session_eq:
  "alice_session =
     \<lparr>user = Some alice, token = Some ''jwt-old'', isLoading = False,
      localStorage = [''access_token'' \<mapsto> ''jwt-old''],
      trace = [StorageGet ''access_token'',
               HttpGet ''http://localhost:8000/users/me'' ''Bearer jwt-old'']\<rparr>"
  by (simp add: alice_session_def mount_def initial_world_def init_token
      fetchUserData_accepted [where u = alice] backend_up_def)

lemma login_profile_failure:
  assumes "post_login net u p = Inr r" and "get_users_me net (access_token r) = Inl e"
  shows "login net u p w =
     (Inr (), w\<lparr>token := None, isLoading := False,
                localStorage := (localStorage w)(''access_token'' := None),
                trace := trace w @
                  [HttpPost ''http://localhost:8000/login'' [u, p],
                   StorageSet ''access_token'' (access_token r),
                   HttpGet ''http://localhost:8000/users/me'' (''Bearer '' @ access_token r),
                   StorageRemove ''access_token'']\<rparr>)"
  using assms by (simp add: login_issued fetchUserData_rejected)

lemma login_profile_success:
  assumes "post_login net u p = Inr r" and "get_users_me net (access_token r) = Inr v"
  shows "login net u p w =
     (Inr (), w\<lparr>user := Some v, token := Some (access_token r), isLoading := False,
                localStorage := (localStorage w)(''access_token'' \<mapsto> access_token r),
                trace := trace w @
                  [HttpPost ''http://localhost:8000/login'' [u, p],
                   StorageSet ''access_token'' (access_token r),
                   HttpGet ''http://localhost:8000/users/me'' (''Bearer '' @ access_token r)]\<rparr>)"
  using assms by (simp add: login_issued fetchUserData_accepted)

lemma confined_to_explicit:
  assumes "trace w' = trace w @ es"
    and "list_all (\<lambda>e. storage_key e = None \<or> storage_key e = Some k) es"
    and "\<And>k'. k' \<noteq> k \<Longrightarrow> localStorage w' k' = localStorage w k'"
  shows "confined_to k w w'"
  using assms by (simp add: confined_to_def new_effects_def)

lemma confined_to_trace:
  assumes "confined_to k w w'"
  shows "trace w' = trace w @ new_effects w w'"
proof -
  from assms have "take (length (trace w)) (trace w') = trace w"
    by (simp add: confined_to_def)
  then show ?thesis
    unfolding new_effects_def by (metis append_take_drop_id)
qed

lemma confined_to_other:
  assumes "confined_to k w w'" and "k' \<noteq> k"
  shows "localStorage w' k' = localStorage w k'"
  using assms by (simp add: confined_to_def)

lemma confined_to_trans:
  assumes "confined_to k w w'" and "confined_to k w' w''"
  shows "confined_to k w w''"
proof (rule confined_to_explicit)
  show "trace w'' = trace w @ (new_effects w w' @ new_effects w' w'')"
    using confined_to_trace [OF assms(1)] confined_to_trace [OF assms(2)] by simp
  show "list_all (\<lambda>e. storage_key e = None \<or> storage_key e = Some k)
          (new_effects w w' @ new_effects w' w'')"
    using assms by (simp add: confined_to_def)
  show "localStorage w'' k' = localStorage w k'" if "k' \<noteq> k" for k'
    using that confined_to_other [OF assms(1)] confined_to_other [OF assms(2)] by simp
qed

lemma fetchUserData_confined: "confined_to ''access_token'' w (snd (fetchUserData net t w))"
  by (cases "get_users_me net t")
    (simp_all add: fetchUserData_accepted fetchUserData_rejected confined_to_def new_effects_def)

lemma login_confined: "confined_to ''access_token'' w (snd (login net u p w))"
proof (cases "post_login net u p")
  case (Inl e)
  then show ?thesis by (simp add: login_rejected confined_to_def new_effects_def)
next
  case (Inr r)
  let ?w1 = "w\<lparr>token := Some (access_token r),
          localStorage := (localStorage w)(''access_token'' \<mapsto> access_token r),
          trace := trace w @ [HttpPost ''http://localhost:8000/login'' [u, p],
                              StorageSet ''access_token'' (access_token r)]\<rparr>"
  have "confined_to ''access_token'' w ?w1"
    by (simp add: confined_to_def new_effects_def)
  moreover have "confined_to ''access_token'' ?w1 (snd (fetchUserData net (access_token r) ?w1))"
    by (rule fetchUserData_confined)
  ultimately show ?thesis
    using Inr by (simp only: login_issued [OF Inr] confined_to_trans)
qed

lemma register_confined: "confined_to ''access_token'' w (snd (register net u m p w))"
proof (cases "post_register net u m p")
  case (Inl e)
  then show ?thesis by (simp add: register_rejected confined_to_def new_effects_def)
next
  case (Inr r)
  let ?w1 = "w\<lparr>trace := trace w @ [HttpPost ''http://localhost:8000/register'' [u, m, p]]\<rparr>"
  have "confined_to ''access_token'' w ?w1"
    by (simp add: confined_to_def new_effects_def)
  moreover have "confined_to ''access_token'' ?w1 (snd (login net u p ?w1))"
    by (rule login_confined)
  ultimately show ?thesis
    by (simp only: register_accepted [OF Inr] confined_to_trans)
qed

lemma init_confined: "confined_to ''access_token'' w (snd (AuthProvider_init net w))"
proof (cases "truthy (localStorage w ''access_token'')")
  case False
  then show ?thesis by (simp add: init_no_token confined_to_def new_effects_def)
next
  case True
  then obtain t where t: "localStorage w ''access_token'' = Some t" "t \<noteq> []"
    by (cases "localStorage w ''access_token''") auto
  let ?w1 = "w\<lparr>trace := trace w @ [StorageGet ''access_token''], token := Some t\<rparr>"
  have "confined_to ''access_token'' w ?w1"
    by (simp add: confined_to_def new_effects_def)
  moreover have "confined_to ''access_token'' ?w1 (snd (fetchUserData net t ?w1))"
    by (rule fetchUserData_confined)
  ultimately show ?thesis
    by (simp only: init_token [OF t] confined_to_trans)
qed

lemma logout_confined: "confined_to ''access_token'' w (snd (logout w))"
  by (simp add: logout_eq confined_to_def new_effects_def)

lemma Login_handleSubmit_resolved:
  assumes "fst (login net (Login_username pg) (Login_password pg) w) = Inr ()"
  shows "Login_handleSubmit net (pg, w) =
     (Inr (), (pg\<lparr>Login_error := [], Login_isLoading := False,
                   Login_location := Some ''/dashboard''\<rparr>,
               snd (login net (Login_username pg) (Login_password pg) w)))"
  using assms
  by (cases "login net (Login_username pg) (Login_password pg) w")
    (simp add: Login_handleSubmit_def bind_prog_def try_catch_finally_def try_catch_def
      in_world_def in_page_def)

lemma Login_handleSubmit_rejected:
  assumes "fst (login net (Login_username pg) (Login_password pg) w) = Inl e"
  shows "Login_handleSubmit net (pg, w) =
     (Inr (), (pg\<lparr>Login_error := or_else (detail e) ''Login failed. Please try again.'',
                   Login_isLoading := False\<rparr>,
               snd (login net (Login_username pg) (Login_password pg) w)))"
  using assms
  by (cases "login net (Login_username pg) (Login_password pg) w")
    (simp add: Login_handleSubmit_def bind_prog_def try_catch_finally_def try_catch_def
      in_world_def in_page_def)

lemma fetchUserData_resolves: "fst (fetchUserData net t w) = Inr ()"
  by (cases "get_users_me net t") (simp_all add: fetchUserData_accepted fetchUserData_rejected)

section \<open>The claims\<close>

text \<open>
  C1 (session invariant: \<open>user\<close> populated only together with a present, validated
  \<open>token\<close>). The catch branch of \<open>fetchUserData\<close> removes the stored token and
  clears the in-memory token but leaves \<open>user\<close> alone. Mounting over an accepted token
  and then logging in again, with the token issued and the profile fetch failing, ends
  with \<open>user\<close> populated and \<open>token\<close> absent.
\<close>

theorem relogin_profile_failure_keeps_user:
  "user alice_session = Some alice \<and> token alice_session = Some ''jwt-old'' \<and>
   fst (login backend_profile_down ''alice'' ''secret1'' alice_session) = Inr () \<and>
   user (snd (login backend_profile_down ''alice'' ''secret1'' alice_session)) = Some alice \<and>
   token (snd (login backend_profile_down ''alice'' ''secret1'' alice_session)) = None"
  by (simp add: alice_session_eq
      login_profile_failure [where r = "\<lparr>access_token = ''jwt-fresh'', token_type = ''bearer''\<rparr>"
        and e = unauthorized]
      backend_profile_down_def)

text \<open>
  C2 (route guard), as the code decides it: while \<open>isLoading\<close> holds the guard renders
  the loading placeholder, which is neither the protected content nor a redirect;
  otherwise it renders the protected content when \<open>user\<close> is present and \<open>token\<close>
  is a non-empty string, and redirects to \<open>/login\<close> when \<open>user\<close> is absent or
  \<open>token\<close> is absent or empty. The result depends on \<open>user\<close>, \<open>token\<close> and
  \<open>isLoading\<close> alone.
\<close>

theorem guard_decision:
  "(isLoading ctx \<longrightarrow> ProtectedRoute ctx = LoadingPlaceholder) \<and>
   (\<not> isLoading ctx \<and> user ctx = Some u \<and> token ctx = Some t \<and> t \<noteq> [] \<longrightarrow>
      ProtectedRoute ctx = Children) \<and>
   (\<not> isLoading ctx \<and> (user ctx = None \<or> token ctx = None \<or> token ctx = Some []) \<longrightarrow>
      ProtectedRoute ctx = Navigate ''/login'') \<and>
   (user ctx' = user ctx \<and> token ctx' = token ctx \<and> isLoading ctx' = isLoading ctx \<longrightarrow>
      ProtectedRoute ctx' = ProtectedRoute ctx)"
  by (auto simp add: ProtectedRoute_def)

theorem guard_decision_witness:
  "ProtectedRoute (initial_world Map.empty) = LoadingPlaceholder \<and>
   ProtectedRoute alice_session = Children \<and>
   ProtectedRoute logged_out = Navigate ''/login'' \<and>
   ProtectedRoute (session.truncate alice_session) = ProtectedRoute alice_session"
  using guard_decision [of "initial_world Map.empty" alice "''jwt-old''" "initial_world Map.empty"]
    guard_decision [of alice_session alice "''jwt-old''" "session.truncate alice_session"]
    guard_decision [of logged_out alice "''jwt-old''" logged_out]
  by (simp add: alice_session_eq logged_out_def initial_world_def session.truncate_def)

text \<open>
  C2 as stated fails for a present but empty token: with a user, the token \<open>''\<close> and
  \<open>isLoading\<close> false the guard redirects, since \<open>!token\<close> holds for the empty
  string.
\<close>

theorem guard_redirects_on_empty_token:
  "user empty_token_session \<noteq> None \<and> token empty_token_session \<noteq> None \<and>
   \<not> isLoading empty_token_session \<and>
   ProtectedRoute empty_token_session = Navigate ''/login''"
  by (simp add: empty_token_session_def ProtectedRoute_def)




text \<open>
  C4 (failed login): when the login request is rejected, \<open>login\<close> rethrows that very
  error and leaves \<open>user\<close>, \<open>token\<close>, \<open>isLoading\<close> and the whole of
  \<open>localStorage\<close> as they were.
\<close>

theorem failed_login_leaves_session:
  assumes "post_login net u p = Inl e"
  shows "fst (login net u p w) = Inl e \<and>
         user (snd (login net u p w)) = user w \<and>
         token (snd (login net u p w)) = token w \<and>
         isLoading (snd (login net u p w)) = isLoading w \<and>
         localStorage (snd (login net u p w)) = localStorage w"
  using assms by (simp add: login_rejected)

theorem failed_login_leaves_session_witness:
  "post_login backend_rejecting ''alice'' ''wrongpass'' = Inl unauthorized \<and>
   fst (login backend_rejecting ''alice'' ''wrongpass'' alice_session) = Inl unauthorized \<and>
   user (snd (login backend_rejecting ''alice'' ''wrongpass'' alice_session)) = Some alice \<and>
   token (snd (login backend_rejecting ''alice'' ''wrongpass'' alice_session)) = Some ''jwt-old'' \<and>
   localStorage (snd (login backend_rejecting ''alice'' ''wrongpass'' alice_session)) ''access_token''
     = Some ''jwt-old''"
proof -
  have h: "post_login backend_rejecting ''alice'' ''wrongpass'' = Inl unauthorized"
    by (simp add: backend_rejecting_def)
  show ?thesis
    using h failed_login_leaves_session [OF h, of alice_session]
    by (simp add: alice_session_eq)
qed

text \<open>
  C5 (profile failure right after issuance). From a session that already has a user,
  \<open>login\<close> posts the credentials, stores the issued token, requests the profile with
  it and, on failure, removes the slot and clears the in-memory token, in this order;
  \<open>user\<close> is not cleared.
\<close>

theorem relogin_profile_failure_effects:
  "new_effects alice_session (snd (login backend_profile_down ''alice'' ''secret1'' alice_session)) =
     [HttpPost ''http://localhost:8000/login'' [''alice'', ''secret1''],
      StorageSet ''access_token'' ''jwt-fresh'',
      HttpGet ''http://localhost:8000/users/me'' ''Bearer jwt-fresh'',
      StorageRemove ''access_token''] \<and>
   localStorage (snd (login backend_profile_down ''alice'' ''secret1'' alice_session)) ''access_token'' = None \<and>
   token (snd (login backend_profile_down ''alice'' ''secret1'' alice_session)) = None \<and>
   user (snd (login backend_profile_down ''alice'' ''secret1'' alice_session)) \<noteq> None"
  by (simp add: alice_session_eq new_effects_def
      login_profile_failure [where r = "\<lparr>access_token = ''jwt-fresh'', token_type = ''bearer''\<rparr>"
        and e = unauthorized]
      backend_profile_down_def)

text \<open>
  C6 (logout): \<open>logout\<close> never throws and ends with no user, no in-memory token and
  an empty \<open>access_token\<close> slot, whatever the prior world; a second \<open>logout\<close>
  changes nothing observable, and from a world that is already logged out the first one
  changes nothing observable either.
\<close>

theorem logout_clears_and_is_idempotent:
  "fst (logout w) = Inr () \<and>
   user (snd (logout w)) = None \<and> token (snd (logout w)) = None \<and>
   localStorage (snd (logout w)) ''access_token'' = None \<and>
   observable (snd (logout (snd (logout w)))) = observable (snd (logout w)) \<and>
   (user w = None \<and> token w = None \<and> localStorage w ''access_token'' = None \<longrightarrow>
      observable (snd (logout w)) = observable w)"
  by (auto simp add: logout_eq observable_def)

theorem logout_clears_and_is_idempotent_witness:
  "user alice_session \<noteq> None \<and>
   user (snd (logout alice_session)) = None \<and> token (snd (logout alice_session)) = None \<and>
   localStorage (snd (logout alice_session)) ''access_token'' = None \<and>
   observable (snd (logout (snd (logout alice_session)))) = observable (snd (logout alice_session)) \<and>
   user logged_out = None \<and> token logged_out = None \<and>
   localStorage logged_out ''access_token'' = None \<and>
   observable (snd (logout logged_out)) = observable logged_out"
  using logout_clears_and_is_idempotent [of alice_session]
    logout_clears_and_is_idempotent [of logged_out]
  by (simp add: alice_session_eq logged_out_def)

text \<open>
  C7 (register with auto-login): \<open>register\<close> posts to the registration endpoint; a
  rejection is rethrown as it is, with nothing else done; on success the outcome of
  \<open>register\<close> is the outcome of \<open>login\<close> with the same username and password, so
  a login failure reaches the caller unchanged.
\<close>

theorem register_auto_login:
  "(post_register net u m p = Inl e \<longrightarrow>
      register net u m p w =
        (Inl e, w\<lparr>trace := trace w @ [HttpPost ''http://localhost:8000/register'' [u, m, p]]\<rparr>)) \<and>
   (post_register net u m p = Inr r \<longrightarrow>
      register net u m p w =
        login net u p
          (w\<lparr>trace := trace w @ [HttpPost ''http://localhost:8000/register'' [u, m, p]]\<rparr>)) \<and>
   (post_register net u m p = Inr r \<and> post_login net u p = Inl e' \<longrightarrow>
      fst (register net u m p w) = Inl e')"
  by (simp add: register_rejected register_accepted login_rejected)

theorem register_auto_login_witness:
  "post_register backend_rejecting ''alice'' ''alice@example.com'' ''secret1'' = Inl unauthorized \<and>
   fst (register backend_rejecting ''alice'' ''alice@example.com'' ''secret1'' logged_out)
     = Inl unauthorized \<and>
   register backend_up ''alice'' ''alice@example.com'' ''secret1'' logged_out =
     login backend_up ''alice'' ''secret1''
       (logged_out\<lparr>trace := trace logged_out @ [HttpPost ''http://localhost:8000/register''
                                [''alice'', ''alice@example.com'', ''secret1'']]\<rparr>) \<and>
   post_login backend_login_down ''alice'' ''secret1'' = Inl unauthorized \<and>
   fst (register backend_login_down ''alice'' ''alice@example.com'' ''secret1'' logged_out)
     = Inl unauthorized"
proof -
  let ?r = "\<lparr>RegisterResponse_id = 1, RegisterResponse_username = ''alice'',
             RegisterResponse_email = ''alice@example.com''\<rparr>"
  have a: "post_register backend_rejecting ''alice'' ''alice@example.com'' ''secret1'' = Inl unauthorized"
    by (simp add: backend_rejecting_def)
  have b: "post_register backend_up ''alice'' ''alice@example.com'' ''secret1'' = Inr ?r"
    by (simp add: backend_up_def)
  have c: "post_register backend_login_down ''alice'' ''alice@example.com'' ''secret1'' = Inr ?r"
    and d: "post_login backend_login_down ''alice'' ''secret1'' = Inl unauthorized"
    by (simp_all add: backend_login_down_def)
  have 1: "fst (register backend_rejecting ''alice'' ''alice@example.com'' ''secret1'' logged_out)
     = Inl unauthorized"
    using a register_auto_login [where net = backend_rejecting and u = "''alice''"
        and m = "''alice@example.com''" and p = "''secret1''" and e = unauthorized
        and r = ?r and e' = unauthorized and w = logged_out]
    by simp
  have 2: "register backend_up ''alice'' ''alice@example.com'' ''secret1'' logged_out =
     login backend_up ''alice'' ''secret1''
       (logged_out\<lparr>trace := trace logged_out @ [HttpPost ''http://localhost:8000/register''
                                [''alice'', ''alice@example.com'', ''secret1'']]\<rparr>)"
    using b register_auto_login [where net = backend_up and u = "''alice''"
        and m = "''alice@example.com''" and p = "''secret1''" and e = unauthorized
        and r = ?r and e' = unauthorized and w = logged_out]
    by blast
  have 3: "fst (register backend_login_down ''alice'' ''alice@example.com'' ''secret1'' logged_out)
     = Inl unauthorized"
    using c d register_auto_login [where net = backend_login_down and u = "''alice''"
        and m = "''alice@example.com''" and p = "''secret1''" and e = unauthorized
        and r = ?r and e' = unauthorized and w = logged_out]
    by blast
  show ?thesis using a d 1 2 3 by blast
qed

text \<open>
  C8 (single storage slot): the session check, \<open>login\<close>, \<open>register\<close>,
  \<open>logout\<close> and \<open>fetchUserData\<close> make storage calls on \<open>access_token\<close> only
  and leave every other slot as it was; a successful login request stores the raw token
  string under that key; and a session check that finds the key absent ends logged out,
  with \<open>isLoading\<close> false, after one read of the key.
\<close>

theorem storage_single_slot:
  "confined_to ''access_token'' w (snd (AuthProvider_init net w)) \<and>
   confined_to ''access_token'' w (snd (login net u p w)) \<and>
   confined_to ''access_token'' w (snd (register net u m p w)) \<and>
   confined_to ''access_token'' w (snd (logout w)) \<and>
   confined_to ''access_token'' w (snd (fetchUserData net t w)) \<and>
   (post_login net u p = Inr r \<longrightarrow>
      StorageSet ''access_token'' (access_token r) \<in> set (new_effects w (snd (login net u p w)))) \<and>
   (store ''access_token'' = None \<longrightarrow>
      mount net store =
        (Inr (), \<lparr>user = None, token = None, isLoading = False, localStorage = store,
                  trace = [StorageGet ''access_token'']\<rparr>))"
proof -
  have "StorageSet ''access_token'' (access_token r) \<in> set (new_effects w (snd (login net u p w)))"
    if "post_login net u p = Inr r"
    using that
    by (cases "get_users_me net (access_token r)")
      (simp_all add: login_profile_failure login_profile_success new_effects_def)
  moreover have "mount net store =
        (Inr (), \<lparr>user = None, token = None, isLoading = False, localStorage = store,
                  trace = [StorageGet ''access_token'']\<rparr>)"
    if "store ''access_token'' = None"
    using that by (simp add: mount_def initial_world_def init_no_token)
  ultimately show ?thesis
    using init_confined login_confined register_confined logout_confined fetchUserData_confined
    by blast
qed

theorem storage_single_slot_witness:
  "localStorage (snd (login backend_up ''alice'' ''secret1'' themed_world)) ''theme'' = Some ''dark'' \<and>
   localStorage (snd (logout themed_world)) ''theme'' = Some ''dark'' \<and>
   post_login backend_up ''alice'' ''secret1''
     = Inr \<lparr>access_token = ''jwt-fresh'', token_type = ''bearer''\<rparr> \<and>
   StorageSet ''access_token'' ''jwt-fresh''
     \<in> set (new_effects themed_world (snd (login backend_up ''alice'' ''secret1'' themed_world))) \<and>
   mount backend_up [''theme'' \<mapsto> ''dark''] =
     (Inr (), \<lparr>user = None, token = None, isLoading = False,
               localStorage = [''theme'' \<mapsto> ''dark''], trace = [StorageGet ''access_token'']\<rparr>)"
proof -
  have h: "post_login backend_up ''alice'' ''secret1''
     = Inr \<lparr>access_token = ''jwt-fresh'', token_type = ''bearer''\<rparr>"
    by (simp add: backend_up_def)
  have k: "[''theme'' \<mapsto> ''dark''] ''access_token'' = None" by simp
  have t: "localStorage themed_world ''theme'' = Some ''dark''"
    by (simp add: themed_world_def logged_out_def)
  have n: "''theme'' \<noteq> ''access_token''" by simp
  note inst = storage_single_slot [where w = themed_world and net = backend_up
      and u = "''alice''" and p = "''secret1''" and m = "''alice@example.com''"
      and t = "''jwt-fresh''" and store = "[''theme'' \<mapsto> ''dark'']"
      and r = "\<lparr>access_token = ''jwt-fresh'', token_type = ''bearer''\<rparr>"]
  have c1: "confined_to ''access_token'' themed_world
      (snd (login backend_up ''alice'' ''secret1'' themed_world))"
    by (rule inst [THEN conjunct2, THEN conjunct1])
  have c2: "confined_to ''access_token'' themed_world (snd (logout themed_world))"
    by (rule inst [THEN conjunct2, THEN conjunct2, THEN conjunct2, THEN conjunct1])
  have 1: "localStorage (snd (login backend_up ''alice'' ''secret1'' themed_world)) ''theme''
      = Some ''dark''"
    using confined_to_other [OF c1 n] t by simp
  have 2: "localStorage (snd (logout themed_world)) ''theme'' = Some ''dark''"
    using confined_to_other [OF c2 n] t by simp
  have 3: "StorageSet ''access_token'' ''jwt-fresh''
     \<in> set (new_effects themed_world (snd (login backend_up ''alice'' ''secret1'' themed_world)))"
    using inst h by simp
  have 4: "mount backend_up [''theme'' \<mapsto> ''dark''] =
     (Inr (), \<lparr>user = None, token = None, isLoading = False,
               localStorage = [''theme'' \<mapsto> ''dark''], trace = [StorageGet ''access_token'']\<rparr>)"
    using inst k by blast
  show ?thesis using h 1 2 3 4 by blast
qed

text \<open>
  C9 (swallowed profile failure): \<open>fetchUserData\<close> resolves even when its request is
  rejected. So when the token is issued and the profile request for it fails, \<open>login\<close>
  resolves after its four outside calls (the login request, storing the token, the
  profile request, removing the token), with the user untouched and the token cleared.
  The Login page's \<open>handleSubmit\<close> runs exactly that \<open>login\<close>: the world it leaves is
  the one \<open>login\<close> leaves, and it then navigates to \<open>/dashboard\<close> with no error
  message. Both the outcome of \<open>login\<close> and the page state are the same as under a
  backend whose profile request succeeds and leaves a user.
\<close>

theorem login_hides_profile_failure:
  assumes "post_login net u p = Inr r" and "get_users_me net (access_token r) = Inl e"
    and "post_login net' u p = Inr r'" and "get_users_me net' (access_token r') = Inr v"
    and "Login_username pg = u" and "Login_password pg = p"
  shows "fst (fetchUserData net (access_token r) w0) = Inr () \<and>
         login net u p w =
           (Inr (), w\<lparr>token := None, isLoading := False,
                      localStorage := (localStorage w)(''access_token'' := None),
                      trace := trace w @
                        [HttpPost ''http://localhost:8000/login'' [u, p],
                         StorageSet ''access_token'' (access_token r),
                         HttpGet ''http://localhost:8000/users/me'' (''Bearer '' @ access_token r),
                         StorageRemove ''access_token'']\<rparr>) \<and>
         fst (login net u p w) = Inr () \<and>
         user (snd (login net u p w)) = user w \<and>
         token (snd (login net u p w)) = None \<and>
         Login_handleSubmit net (pg, w) =
           (Inr (), (pg\<lparr>Login_error := [], Login_isLoading := False,
                         Login_location := Some ''/dashboard''\<rparr>,
                     snd (login net u p w))) \<and>
         snd (snd (Login_handleSubmit net (pg, w))) = snd (login net u p w) \<and>
         new_effects w (snd (snd (Login_handleSubmit net (pg, w)))) =
           [HttpPost ''http://localhost:8000/login'' [u, p],
            StorageSet ''access_token'' (access_token r),
            HttpGet ''http://localhost:8000/users/me'' (''Bearer '' @ access_token r),
            StorageRemove ''access_token''] \<and>
         fst (Login_handleSubmit net (pg, w)) = Inr () \<and>
         Login_location (fst (snd (Login_handleSubmit net (pg, w)))) = Some ''/dashboard'' \<and>
         Login_error (fst (snd (Login_handleSubmit net (pg, w)))) = [] \<and>
         fst (login net' u p w) = fst (login net u p w) \<and>
         snd (snd (Login_handleSubmit net' (pg, w))) = snd (login net' u p w) \<and>
         user (snd (login net' u p w)) = Some v \<and>
         fst (snd (Login_handleSubmit net' (pg, w))) = fst (snd (Login_handleSubmit net (pg, w)))"
proof -
  have s: "fst (fetchUserData net (access_token r) w0) = Inr ()"
    by (rule fetchUserData_resolves)
  have l: "login net u p w =
           (Inr (), w\<lparr>token := None, isLoading := False,
                      localStorage := (localStorage w)(''access_token'' := None),
                      trace := trace w @
                        [HttpPost ''http://localhost:8000/login'' [u, p],
                         StorageSet ''access_token'' (access_token r),
                         HttpGet ''http://localhost:8000/users/me'' (''Bearer '' @ access_token r),
                         StorageRemove ''access_token'']\<rparr>)"
    using assms(1,2) by (rule login_profile_failure)
  have a: "fst (login net u p w) = Inr ()"
    and b: "user (snd (login net u p w)) = user w"
    and c: "token (snd (login net u p w)) = None"
    and n: "new_effects w (snd (login net u p w)) =
           [HttpPost ''http://localhost:8000/login'' [u, p],
            StorageSet ''access_token'' (access_token r),
            HttpGet ''http://localhost:8000/users/me'' (''Bearer '' @ access_token r),
            StorageRemove ''access_token'']"
    by (simp_all add: l new_effects_def)
  have d: "fst (login net' u p w) = Inr ()"
    and d': "user (snd (login net' u p w)) = Some v"
    using assms(3,4) by (simp_all add: login_profile_success)
  have h: "Login_handleSubmit net (pg, w) =
     (Inr (), (pg\<lparr>Login_error := [], Login_isLoading := False,
                   Login_location := Some ''/dashboard''\<rparr>, snd (login net u p w)))"
    using a assms(5,6) Login_handleSubmit_resolved [of net pg w] by simp
  have h': "Login_handleSubmit net' (pg, w) =
     (Inr (), (pg\<lparr>Login_error := [], Login_isLoading := False,
                   Login_location := Some ''/dashboard''\<rparr>, snd (login net' u p w)))"
    using d assms(5,6) Login_handleSubmit_resolved [of net' pg w] by simp
  have hs: "snd (snd (Login_handleSubmit net (pg, w))) = snd (login net u p w)"
    and hs': "snd (snd (Login_handleSubmit net' (pg, w))) = snd (login net' u p w)"
    and hf: "fst (Login_handleSubmit net (pg, w)) = Inr ()"
    and hl: "Login_location (fst (snd (Login_handleSubmit net (pg, w)))) = Some ''/dashboard''"
    and he: "Login_error (fst (snd (Login_handleSubmit net (pg, w)))) = []"
    and hp: "fst (snd (Login_handleSubmit net' (pg, w))) = fst (snd (Login_handleSubmit net (pg, w)))"
    by (simp_all add: h h')
  have hn: "new_effects w (snd (snd (Login_handleSubmit net (pg, w)))) =
           [HttpPost ''http://localhost:8000/login'' [u, p],
            StorageSet ''access_token'' (access_token r),
            HttpGet ''http://localhost:8000/users/me'' (''Bearer '' @ access_token r),
            StorageRemove ''access_token'']"
    by (simp only: hs n)
  have da: "fst (login net' u p w) = fst (login net u p w)" by (simp only: a d)
  from s l a b c h hs hn hf hl he da hs' d' hp show ?thesis by (intro conjI)
qed

theorem login_hides_profile_failure_witness:
  "post_login backend_profile_down ''alice'' ''secret1''
     = Inr \<lparr>access_token = ''jwt-fresh'', token_type = ''bearer''\<rparr> \<and>
   get_users_me backend_profile_down ''jwt-fresh'' = Inl unauthorized \<and>
   fst (fetchUserData backend_profile_down ''jwt-fresh'' alice_session) = Inr () \<and>
   fst (login backend_profile_down ''alice'' ''secret1'' alice_session) = Inr () \<and>
   user (snd (login backend_profile_down ''alice'' ''secret1'' alice_session)) = Some alice \<and>
   token (snd (login backend_profile_down ''alice'' ''secret1'' alice_session)) = None \<and>
   snd (snd (Login_handleSubmit backend_profile_down (login_form, alice_session)))
     = snd (login backend_profile_down ''alice'' ''secret1'' alice_session) \<and>
   new_effects alice_session
       (snd (snd (Login_handleSubmit backend_profile_down (login_form, alice_session)))) =
     [HttpPost ''http://localhost:8000/login'' [''alice'', ''secret1''],
      StorageSet ''access_token'' ''jwt-fresh'',
      HttpGet ''http://localhost:8000/users/me'' ''Bearer jwt-fresh'',
      StorageRemove ''access_token''] \<and>
   Login_location (fst (snd (Login_handleSubmit backend_profile_down (login_form, alice_session))))
     = Some ''/dashboard'' \<and>
   Login_error (fst (snd (Login_handleSubmit backend_profile_down (login_form, alice_session))))
     = [] \<and>
   fst (snd (Login_handleSubmit backend_up (login_form, alice_session)))
     = fst (snd (Login_handleSubmit backend_profile_down (login_form, alice_session)))"
proof -
  let ?r = "\<lparr>access_token = ''jwt-fresh'', token_type = ''bearer''\<rparr>"
  have h1: "post_login backend_profile_down ''alice'' ''secret1'' = Inr ?r"
    and h2: "get_users_me backend_profile_down (access_token ?r) = Inl unauthorized"
    by (simp_all add: backend_profile_down_def)
  have h3: "post_login backend_up ''alice'' ''secret1'' = Inr ?r"
    and h4: "get_users_me backend_up (access_token ?r) = Inr alice"
    by (simp_all add: backend_up_def)
  have h5: "Login_username login_form = ''alice''" and h6: "Login_password login_form = ''secret1''"
    by (simp_all add: login_form_def)
  have u: "user alice_session = Some alice" by (simp add: alice_session_eq)
  note inst = login_hides_profile_failure
      [OF h1 h2 h3 h4 h5 h6, where w = alice_session and ?w0.0 = alice_session]
  have g: "get_users_me backend_profile_down ''jwt-fresh'' = Inl unauthorized"
    using h2 by simp
  have 1: "fst (fetchUserData backend_profile_down ''jwt-fresh'' alice_session) = Inr ()"
    using inst [THEN conjunct1] by simp
  have 2: "fst (login backend_profile_down ''alice'' ''secret1'' alice_session) = Inr ()"
    by (rule inst [THEN conjunct2, THEN conjunct2, THEN conjunct1])
  have 3: "user (snd (login backend_profile_down ''alice'' ''secret1'' alice_session)) = Some alice"
    using inst [THEN conjunct2, THEN conjunct2, THEN conjunct2, THEN conjunct1] u by simp
  have 4: "token (snd (login backend_profile_down ''alice'' ''secret1'' alice_session)) = None"
    by (rule inst [THEN conjunct2, THEN conjunct2, THEN conjunct2, THEN conjunct2, THEN conjunct1])
  note rest = inst [THEN conjunct2, THEN conjunct2, THEN conjunct2, THEN conjunct2,
      THEN conjunct2, THEN conjunct2]
  have 5: "snd (snd (Login_handleSubmit backend_profile_down (login_form, alice_session)))
     = snd (login backend_profile_down ''alice'' ''secret1'' alice_session)"
    by (rule rest [THEN conjunct1])
  have 6: "new_effects alice_session
       (snd (snd (Login_handleSubmit backend_profile_down (login_form, alice_session)))) =
     [HttpPost ''http://localhost:8000/login'' [''alice'', ''secret1''],
      StorageSet ''access_token'' ''jwt-fresh'',
      HttpGet ''http://localhost:8000/users/me'' ''Bearer jwt-fresh'',
      StorageRemove ''access_token'']"
    using rest [THEN conjunct2, THEN conjunct1] by simp
  note rest2 = rest [THEN conjunct2, THEN conjunct2, THEN conjunct2]
  have 7: "Login_location (fst (snd (Login_handleSubmit backend_profile_down (login_form, alice_session))))
     = Some ''/dashboard''"
    by (rule rest2 [THEN conjunct1])
  have 8: "Login_error (fst (snd (Login_handleSubmit backend_profile_down (login_form, alice_session))))
     = []"
    by (rule rest2 [THEN conjunct2, THEN conjunct1])
  have 9: "fst (snd (Login_handleSubmit backend_up (login_form, alice_session)))
     = fst (snd (Login_handleSubmit backend_profile_down (login_form, alice_session)))"
    by (rule rest2 [THEN conjunct2, THEN conjunct2, THEN conjunct2, THEN conjunct2,
          THEN conjunct2])
  from h1 g 1 2 3 4 5 6 7 8 9 show ?thesis by (intro conjI)
qed

text \<open>
  C10 (client-side validation on the Register page): when the password and its
  confirmation differ, or the password has fewer than 6 characters, \<open>handleSubmit\<close>
  sets the matching error message and returns; the world is the one it started from, so
  no request was made and the session is unchanged.
\<close>

theorem register_validation_blocks_submit:
  assumes "Register_password pg \<noteq> Register_confirmPassword pg \<or> length (Register_password pg) < 6"
  shows "Register_handleSubmit net (pg, w) =
           (Inr (), (pg\<lparr>Register_error :=
                          (if Register_password pg \<noteq> Register_confirmPassword pg
                           then ''Passwords do not match''
                           else ''Password must be at least 6 characters'')\<rparr>, w)) \<and>
         Register_error (fst (snd (Register_handleSubmit net (pg, w)))) \<noteq> [] \<and>
         new_effects w (snd (snd (Register_handleSubmit net (pg, w)))) = [] \<and>
         observable (snd (snd (Register_handleSubmit net (pg, w)))) = observable w"
  using assms
  by (auto simp add: Register_handleSubmit_def bind_prog_def in_page_def new_effects_def)

theorem register_validation_blocks_submit_witness:
  "Register_handleSubmit backend_up (register_form ''password123'' ''different'', logged_out) =
     (Inr (), ((register_form ''password123'' ''different'')
                 \<lparr>Register_error := ''Passwords do not match''\<rparr>, logged_out)) \<and>
   length ''short'' < 6 \<and>
   Register_handleSubmit backend_up (register_form ''short'' ''short'', logged_out) =
     (Inr (), ((register_form ''short'' ''short'')
                 \<lparr>Register_error := ''Password must be at least 6 characters''\<rparr>, logged_out))"
  using register_validation_blocks_submit
      [of "register_form ''password123'' ''different''" backend_up logged_out]
    register_validation_blocks_submit
      [of "register_form ''short'' ''short''" backend_up logged_out]
  by (simp add: register_form_def)

end
